theory Spec2Isabelle
  imports Complex_Main
begin

section \<open>Values held by the store\<close>

text \<open>
  The server keeps \<^verbatim>\<open>map[string][]interface{}\<close>. An \<^verbatim>\<open>interface{}\<close> holds a value
  together with its dynamic type, and the handlers branch on that type through type
  assertions, so the dynamic type is a constructor here. The generic JSON decoder only
  produces nil, bool, float64, string, slices and maps; a Go \<^verbatim>\<open>int\<close> enters the store
  only where a handler writes one (\<^verbatim>\<open>newItem["id"] = len(...) + 1\<close>,
  \<^verbatim>\<open>updatedItem["id"] = id\<close>). A float64 is represented by the rational it denotes
  (the decoder yields no NaN and no infinity).
\<close>

datatype jvalue =
    VNil
  | VBool bool
  | VFloat64 rat
  | VInt int
  | VString string
  | VSlice "jvalue list"
  | VMap "string \<Rightarrow> jvalue option"

type_synonym item_map = "string \<Rightarrow> jvalue option"

text \<open>
  The run-time failures of the handlers are panics: a failed single-value type
  assertion, an assignment to an entry of a nil map, and an index beyond the length of
  a slice. Inside \<^verbatim>\<open>net/http\<close> a panic of a handler ends the request without a
  response written by the handler; the process goes on.
\<close>

datatype panic = InterfaceConversion | NilMapAssignment | IndexOutOfRange

text \<open>\<^verbatim>\<open>item.(map[string]interface{})\<close>\<close>

fun assert_map :: "jvalue \<Rightarrow> panic + item_map" where
  "assert_map (VMap m) = Inr m"
| "assert_map v = Inl InterfaceConversion"

text \<open>\<^verbatim>\<open>itemMap["id"]\<close>: indexing a map at a missing key yields the nil interface.\<close>

definition map_index :: "item_map \<Rightarrow> string \<Rightarrow> jvalue" where
  "map_index m k = (case m k of None \<Rightarrow> VNil | Some v \<Rightarrow> v)"

text \<open>\<^verbatim>\<open>v.(float64)\<close>\<close>

fun assert_float64 :: "jvalue \<Rightarrow> panic + rat" where
  "assert_float64 (VFloat64 f) = Inr f"
| "assert_float64 v = Inl InterfaceConversion"

text \<open>
  \<^verbatim>\<open>int(f)\<close> for a float64 \<^verbatim>\<open>f\<close>: the fraction is discarded (truncation towards zero).
  Outside the range of a 64-bit \<^verbatim>\<open>int\<close> the language leaves the result to the
  implementation; the value written here is the one of amd64.
\<close>

definition float64_to_int :: "rat \<Rightarrow> int" where
  "float64_to_int f =
     (let t = (if 0 \<le> f then \<lfloor>f\<rfloor> else \<lceil>f\<rceil>)
      in if - (2 ^ 63) \<le> t \<and> t < 2 ^ 63 then t else - (2 ^ 63))"

section \<open>Library functions used by the router\<close>

text \<open>
  \<^verbatim>\<open>strconv.Atoi\<close> on a 64-bit platform: an optional sign, then one or more decimal
  digits and nothing else, and the value has to fit a 64-bit \<^verbatim>\<open>int\<close>. \<open>None\<close> stands
  for a non-nil error.
\<close>

definition is_digit :: "char \<Rightarrow> bool" where
  "is_digit c = (c \<in> set ''0123456789'')"

definition digit_val :: "char \<Rightarrow> int" where
  "digit_val c = int (of_char c) - 48"

fun digits_val :: "int \<Rightarrow> string \<Rightarrow> int" where
  "digits_val n [] = n"
| "digits_val n (ch # s) = digits_val (n * 10 + digit_val ch) s"

definition Atoi :: "string \<Rightarrow> int option" where
  "Atoi s0 =
     (case s0 of
        [] \<Rightarrow> None
      | c # cs \<Rightarrow>
          (let s = (if c = CHR ''-'' \<or> c = CHR ''+'' then cs else s0)
           in if s \<noteq> [] \<and> list_all is_digit s
              then (let n = digits_val 0 s;
                        v = (if c = CHR ''-'' then - n else n)
                    in if - (2 ^ 63) \<le> v \<and> v < 2 ^ 63 then Some v else None)
              else None))"

text \<open>\<^verbatim>\<open>strings.Trim(s, cutset)\<close>: drops the leading and trailing characters of the cutset.\<close>

definition Trim :: "string \<Rightarrow> string \<Rightarrow> string" where
  "Trim s cutset =
     rev (dropWhile (\<lambda>c. c \<in> set cutset) (rev (dropWhile (\<lambda>c. c \<in> set cutset) s)))"

text \<open>
  \<^verbatim>\<open>strings.Split(s, sep)\<close> for a separator of one character, the only use in the
  source: the pieces between the separators, one piece more than there are separators,
  so never the empty list.
\<close>

fun Split :: "string \<Rightarrow> char \<Rightarrow> string list" where
  "Split [] sep = [[]]"
| "Split (c # cs) sep =
     (if c = sep then [] # Split cs sep
      else (case Split cs sep of
              [] \<Rightarrow> [[c]]
            | p # ps \<Rightarrow> (c # p) # ps))"

section \<open>Server state, requests and responses\<close>

text \<open>
  \<^verbatim>\<open>type Server struct { data; filename; logger }\<close>. The logger only prints and is left
  out. The store is a \<^verbatim>\<open>map[string][]interface{}\<close>. Both a Go map and a Go slice can
  be nil, and the loader leaves either for a file that holds the literal \<^verbatim>\<open>null\<close> in
  that place, so both are values here. A nil map reads like the empty map and panics
  when written; a nil slice has length 0, can be appended to, and differs from the
  empty slice in what the JSON encoder writes for it.
\<close>

datatype slice = NilSlice | GoSlice "jvalue list"

datatype store = NilMap | GoMap "string \<Rightarrow> slice option"

record Server =
  data :: store
  filename :: string

text \<open>The elements of a slice, as \<^verbatim>\<open>len\<close>, \<^verbatim>\<open>range\<close> and \<^verbatim>\<open>append\<close> see them.\<close>

fun elems :: "slice \<Rightarrow> jvalue list" where
  "elems NilSlice = []"
| "elems (GoSlice xs) = xs"

text \<open>\<^verbatim>\<open>items, exists := m[k]\<close>: \<open>None\<close> is \<^verbatim>\<open>exists == false\<close>.\<close>

fun map_lookup :: "store \<Rightarrow> string \<Rightarrow> slice option" where
  "map_lookup NilMap k = None"
| "map_lookup (GoMap m) k = m k"

text \<open>\<^verbatim>\<open>s.data[collection]\<close> as an expression: the nil slice at a missing key.\<close>

definition data_index :: "Server \<Rightarrow> string \<Rightarrow> slice" where
  "data_index s collection =
     (case map_lookup (data s) collection of None \<Rightarrow> NilSlice | Some items \<Rightarrow> items)"

text \<open>\<^verbatim>\<open>m[k] = v\<close>\<close>

fun map_assign :: "store \<Rightarrow> string \<Rightarrow> slice \<Rightarrow> panic + store" where
  "map_assign NilMap k v = Inl NilMapAssignment"
| "map_assign (GoMap m) k v = Inr (GoMap (m(k \<mapsto> v)))"

text \<open>
  \<^verbatim>\<open>m[k][idx] = x\<close>: the element is written into the slice that the map holds at
  \<^verbatim>\<open>k\<close>; the map itself is only read.
\<close>

definition set_elem :: "store \<Rightarrow> string \<Rightarrow> nat \<Rightarrow> jvalue \<Rightarrow> panic + store" where
  "set_elem d k idx x =
     (case d of
        NilMap \<Rightarrow> Inl IndexOutOfRange
      | GoMap m \<Rightarrow>
          (case m k of
             Some (GoSlice xs) \<Rightarrow>
               if idx < length xs then Inr (GoMap (m(k \<mapsto> GoSlice (xs[idx := x]))))
               else Inl IndexOutOfRange
           | _ \<Rightarrow> Inl IndexOutOfRange))"

text \<open>
  What \<^verbatim>\<open>json.NewDecoder(r.Body).Decode(&m)\<close> leaves for a
  \<^verbatim>\<open>var m map[string]interface{}\<close>: an error, the nil map (the body is the literal
  \<^verbatim>\<open>null\<close>, which is no error), or a map. Decoding itself is the library's.
\<close>

datatype decoded = DecodeErr string | DecodeNil | DecodeMap item_map

record request =
  Method :: string
  Path :: string
  Body :: decoded

text \<open>
  What a handler hands to the response writer: a text, or a value for the JSON encoder
  (one record, or the slice of a collection), or nothing.
\<close>

datatype payload =
    Text string
  | Item item_map
  | Items slice
  | Empty

record response =
  status :: int
  payload :: payload

text \<open>\<^verbatim>\<open>http.Error(w, msg, code)\<close>\<close>

definition http_Error :: "string \<Rightarrow> int \<Rightarrow> response" where
  "http_Error msg code = \<lparr>status = code, payload = Text msg\<rparr>"

type_synonym outcome = "panic + response"

text \<open>
  \<^verbatim>\<open>saveData\<close> marshals the whole store and writes the file. Both steps belong to the
  environment, whose verdict is an input of the model: \<open>None\<close> for a nil error,
  \<open>Some msg\<close> for a failure.
\<close>

definition saveData :: "Server \<Rightarrow> string option \<Rightarrow> string option" where
  "saveData s io = io"

section \<open>Lookup\<close>

text \<open>
  \<^verbatim>\<open>findItemIndex\<close>: the loop over the items with its index. \<open>Inr (Some i)\<close> is the
  return \<^verbatim>\<open>(i, true)\<close>, \<open>Inr None\<close> is \<^verbatim>\<open>(-1, false)\<close>, \<open>Inl\<close> a panic of one of the
  two type assertions.
\<close>

fun find_loop :: "nat \<Rightarrow> jvalue list \<Rightarrow> int \<Rightarrow> panic + nat option" where
  "find_loop i [] ident = Inr None"
| "find_loop i (item # items) ident =
     (case assert_map item of
        Inl p \<Rightarrow> Inl p
      | Inr itemMap \<Rightarrow>
          (case assert_float64 (map_index itemMap ''id'') of
             Inl p \<Rightarrow> Inl p
           | Inr f \<Rightarrow>
               if float64_to_int f = ident then Inr (Some i)
               else find_loop (Suc i) items ident))"

definition findItemIndex :: "Server \<Rightarrow> string \<Rightarrow> int \<Rightarrow> panic + nat option" where
  "findItemIndex s collection ident = find_loop 0 (elems (data_index s collection)) ident"

text \<open>
  The identifier of an item as both scans compute it,
  \<^verbatim>\<open>int(item.(map[string]interface{})["id"].(float64))\<close>: the two type assertions,
  then the conversion.
\<close>

definition item_id :: "jvalue \<Rightarrow> panic + int" where
  "item_id item =
     (case assert_map item of
        Inl p \<Rightarrow> Inl p
      | Inr itemMap \<Rightarrow>
          (case assert_float64 (map_index itemMap ''id'') of
             Inl p \<Rightarrow> Inl p
           | Inr f \<Rightarrow> Inr (float64_to_int f)))"

section \<open>Handlers\<close>

text \<open>The scan of \<^verbatim>\<open>handleGet\<close> for a single item, written out a second time in the source.\<close>

fun get_loop :: "jvalue list \<Rightarrow> int \<Rightarrow> outcome" where
  "get_loop [] ident = Inr (http_Error ''Item not found'' 404)"
| "get_loop (item # items) ident =
     (case assert_map item of
        Inl p \<Rightarrow> Inl p
      | Inr itemMap \<Rightarrow>
          (case assert_float64 (map_index itemMap ''id'') of
             Inl p \<Rightarrow> Inl p
           | Inr f \<Rightarrow>
               if float64_to_int f = ident then Inr \<lparr>status = 200, payload = Item itemMap\<rparr>
               else get_loop items ident))"

definition handleGet :: "Server \<Rightarrow> string \<Rightarrow> string list \<Rightarrow> outcome" where
  "handleGet s collection parts =
     (case map_lookup (data s) collection of
        None \<Rightarrow> Inr (http_Error ''Collection not found'' 404)
      | Some items \<Rightarrow>
          if length parts > 1 then
            (case Atoi (parts ! 1) of
               None \<Rightarrow> Inr (http_Error ''Invalid ID'' 400)
             | Some ident \<Rightarrow> get_loop (elems items) ident)
          else Inr \<lparr>status = 200, payload = Items items\<rparr>)"

definition handlePost :: "Server \<Rightarrow> string \<Rightarrow> decoded \<Rightarrow> string option \<Rightarrow> outcome \<times> Server" where
  "handlePost s collection b io =
     (case b of
        DecodeErr msg \<Rightarrow> (Inr (http_Error msg 400), s)
      | DecodeNil \<Rightarrow> (Inl NilMapAssignment, s)
      | DecodeMap m \<Rightarrow>
          (let newItem = (if m ''id'' = None
                          then m(''id'' \<mapsto> VInt (int (length (elems (data_index s collection))) + 1))
                          else m)
           in case map_assign (data s) collection
                     (GoSlice (elems (data_index s collection) @ [VMap newItem])) of
                Inl p \<Rightarrow> (Inl p, s)
              | Inr d \<Rightarrow>
                  (let s' = s\<lparr>data := d\<rparr>
                   in case saveData s' io of
                        Some err \<Rightarrow> (Inr (http_Error ''Failed to save data'' 500), s')
                      | None \<Rightarrow> (Inr \<lparr>status = 201, payload = Item newItem\<rparr>, s'))))"

definition handlePut ::
  "Server \<Rightarrow> string \<Rightarrow> string list \<Rightarrow> decoded \<Rightarrow> string option \<Rightarrow> outcome \<times> Server" where
  "handlePut s collection parts b io =
     (if length parts < 2 then (Inr (http_Error ''ID required'' 400), s)
      else case Atoi (parts ! 1) of
        None \<Rightarrow> (Inr (http_Error ''Invalid ID'' 400), s)
      | Some ident \<Rightarrow>
          (case b of
             DecodeErr msg \<Rightarrow> (Inr (http_Error msg 400), s)
           | _ \<Rightarrow>
               (case findItemIndex s collection ident of
                  Inl p \<Rightarrow> (Inl p, s)
                | Inr None \<Rightarrow> (Inr (http_Error ''Item not found'' 404), s)
                | Inr (Some idx) \<Rightarrow>
                    (case b of
                       DecodeMap m \<Rightarrow>
                         (let updatedItem = m(''id'' \<mapsto> VInt ident)
                          in case set_elem (data s) collection idx (VMap updatedItem) of
                               Inl p \<Rightarrow> (Inl p, s)
                             | Inr d \<Rightarrow>
                                 (let s' = s\<lparr>data := d\<rparr>
                                  in case saveData s' io of
                                       Some err \<Rightarrow>
                                         (Inr (http_Error ''Failed to save data'' 500), s')
                                     | None \<Rightarrow>
                                         (Inr \<lparr>status = 200, payload = Item updatedItem\<rparr>, s')))
                     | _ \<Rightarrow> (Inl NilMapAssignment, s)))))"

text \<open>
  In \<^verbatim>\<open>handleDelete\<close> the two slice expressions \<^verbatim>\<open>[:idx]\<close> and \<^verbatim>\<open>[idx+1:]\<close> are in
  range, since \<^verbatim>\<open>idx\<close> comes from a lookup that found it.
\<close>

definition handleDelete ::
  "Server \<Rightarrow> string \<Rightarrow> string list \<Rightarrow> string option \<Rightarrow> outcome \<times> Server" where
  "handleDelete s collection parts io =
     (if length parts < 2 then (Inr (http_Error ''ID required'' 400), s)
      else case Atoi (parts ! 1) of
        None \<Rightarrow> (Inr (http_Error ''Invalid ID'' 400), s)
      | Some ident \<Rightarrow>
          (case findItemIndex s collection ident of
             Inl p \<Rightarrow> (Inl p, s)
           | Inr None \<Rightarrow> (Inr (http_Error ''Item not found'' 404), s)
           | Inr (Some idx) \<Rightarrow>
               (case map_assign (data s) collection
                       (GoSlice (take idx (elems (data_index s collection))
                                 @ drop (idx + 1) (elems (data_index s collection)))) of
                  Inl p \<Rightarrow> (Inl p, s)
                | Inr d \<Rightarrow>
                    (let s' = s\<lparr>data := d\<rparr>
                     in case saveData s' io of
                          Some err \<Rightarrow> (Inr (http_Error ''Failed to save data'' 500), s')
                        | None \<Rightarrow> (Inr \<lparr>status = 200, payload = Empty\<rparr>, s')))))"

text \<open>
  \<^verbatim>\<open>handleCollection\<close>: the router. The deferred log call does not touch the store or
  the response and is left out.
\<close>

definition path_parts :: "string \<Rightarrow> string list" where
  "path_parts p = Split (Trim p ''/'') CHR ''/''"

definition handleCollection :: "Server \<Rightarrow> request \<Rightarrow> string option \<Rightarrow> outcome \<times> Server" where
  "handleCollection s r io =
     (let parts = path_parts (Path r);
          collection = hd parts
      in if Method r = ''GET'' then (handleGet s collection parts, s)
         else if Method r = ''POST'' then handlePost s collection (Body r) io
         else if Method r = ''PUT'' then handlePut s collection parts (Body r) io
         else if Method r = ''DELETE'' then handleDelete s collection parts io
         else (Inr (http_Error ''Method not allowed'' 405), s))"

section \<open>Start-up\<close>

text \<open>
  The content of the backing file, as the scanner of \<^verbatim>\<open>encoding/json\<close> sees the bytes
  that \<^verbatim>\<open>ioutil.ReadAll\<close> returned (the source discards the error of the read): either
  not a JSON text, with the scanner's message, or a JSON document. A number stands for
  the float64 it decodes to; a number that no float64 holds is refused by the decoder
  and counts as \<open>Malformed\<close> here.
\<close>

datatype json =
    JNull
  | JBool bool
  | JNumber rat
  | JString string
  | JArray "json list"
  | JObject "(string \<times> json) list"

datatype content = Malformed string | Document json

text \<open>
  \<^verbatim>\<open>json.Unmarshal\<close> into an \<^verbatim>\<open>interface{}\<close>, as the package documents it: null gives
  nil, a number a float64, an array a non-nil \<^verbatim>\<open>[]interface{}\<close>, an object a
  \<^verbatim>\<open>map[string]interface{}\<close> in which the last of several equal keys wins.
\<close>

fun decode_value :: "json \<Rightarrow> jvalue"
  and decode_values :: "json list \<Rightarrow> jvalue list"
  and decode_object :: "(string \<times> json) list \<Rightarrow> item_map \<Rightarrow> item_map" where
  "decode_value JNull = VNil"
| "decode_value (JBool b) = VBool b"
| "decode_value (JNumber n) = VFloat64 n"
| "decode_value (JString s) = VString s"
| "decode_value (JArray xs) = VSlice (decode_values xs)"
| "decode_value (JObject kvs) = VMap (decode_object kvs Map.empty)"
| "decode_values [] = []"
| "decode_values (x # xs) = decode_value x # decode_values xs"
| "decode_object [] m = m"
| "decode_object ((k, v) # kvs) m = decode_object kvs (m(k \<mapsto> decode_value v))"

text \<open>
  \<^verbatim>\<open>json.Unmarshal\<close> into a \<^verbatim>\<open>[]interface{}\<close>: null sets the slice to nil and is no
  error, an array gives its elements, anything else is a type error.
\<close>

fun decode_slice :: "json \<Rightarrow> string + slice" where
  "decode_slice JNull = Inr NilSlice"
| "decode_slice (JArray xs) = Inr (GoSlice (decode_values xs))"
| "decode_slice v = Inl ''json: cannot unmarshal into Go value of type []interface {}''"

text \<open>
  The members of the top-level object, stored into the map one after the other. The
  decoder goes on after a type error and returns the first one at the end; the map is
  then discarded by \<^verbatim>\<open>NewServer\<close>, so the error is returned at once here.
\<close>

fun decode_members ::
  "(string \<times> json) list \<Rightarrow> (string \<Rightarrow> slice option) \<Rightarrow> string + (string \<Rightarrow> slice option)" where
  "decode_members [] m = Inr m"
| "decode_members ((k, v) # kvs) m =
     (case decode_slice v of
        Inl err \<Rightarrow> Inl err
      | Inr sl \<Rightarrow> decode_members kvs (m(k \<mapsto> sl)))"

text \<open>
  \<^verbatim>\<open>json.Unmarshal(byteValue, &server.data)\<close>, where \<^verbatim>\<open>server.data\<close> is the empty map
  that \<^verbatim>\<open>make\<close> returned: a text that is no JSON is an error; the literal null sets
  the map to nil and is no error; an object fills the map; any other document is a
  type error.
\<close>

fun Unmarshal :: "content \<Rightarrow> string + store" where
  "Unmarshal (Malformed err) = Inl err"
| "Unmarshal (Document JNull) = Inr NilMap"
| "Unmarshal (Document (JObject kvs)) =
     (case decode_members kvs Map.empty of
        Inl err \<Rightarrow> Inl err
      | Inr m \<Rightarrow> Inr (GoMap m))"
| "Unmarshal (Document v) =
     Inl ''json: cannot unmarshal into Go value of type map[string][]interface {}''"

text \<open>
  \<^verbatim>\<open>NewServer\<close>. The file system is the environment: \<open>open_read name\<close> is \<open>Inl err\<close>
  when \<^verbatim>\<open>os.Open\<close> fails and otherwise the content read from the file.
\<close>

definition NewServer :: "(string \<Rightarrow> string + content) \<Rightarrow> string \<Rightarrow> string + Server" where
  "NewServer open_read name =
     (case open_read name of
        Inl err \<Rightarrow> Inl err
      | Inr byteValue \<Rightarrow>
          (case Unmarshal byteValue of
             Inl err \<Rightarrow> Inl err
           | Inr d \<Rightarrow> Inr \<lparr>data = d, filename = name\<rparr>))"

text \<open>
  \<^verbatim>\<open>Run\<close>: \<open>Inl\<close> is the error returned before anything is served, \<open>Inr srv\<close> the
  state with which the handler is registered and the listener started.
\<close>

definition Run :: "(string \<Rightarrow> string + content) \<Rightarrow> string \<Rightarrow> string + Server" where
  "Run open_read name =
     (case NewServer open_read name of
        Inl err \<Rightarrow> Inl (''error initializing server: '' @ err)
      | Inr server \<Rightarrow> Inr server)"

section \<open>The lookup loops\<close>

lemma Split_not_Nil: "Split s sep \<noteq> []"
  by (induction s) (auto split: list.splits)

lemma find_loop_step:
  "find_loop i (item # items) ident =
     (case item_id item of
        Inl p \<Rightarrow> Inl p
      | Inr n \<Rightarrow> if n = ident then Inr (Some i) else find_loop (Suc i) items ident)"
  by (simp add: item_id_def split: sum.splits)

lemma get_loop_step:
  "get_loop (item # items) ident =
     (case item_id item of
        Inl p \<Rightarrow> Inl p
      | Inr n \<Rightarrow> if n = ident then Inr \<lparr>status = 200, payload = Item (projr (assert_map item))\<rparr>
                 else get_loop items ident)"
  by (simp add: item_id_def split: sum.splits)

declare find_loop.simps(2) [simp del] get_loop.simps(2) [simp del]

lemma find_loop_found_first:
  "find_loop i xs ident = Inr (Some k) \<Longrightarrow>
     \<exists>n. k = i + n \<and> n < length xs \<and> item_id (xs ! n) = Inr ident
        \<and> (\<forall>j<n. \<exists>m. item_id (xs ! j) = Inr m \<and> m \<noteq> ident)"
proof (induction xs arbitrary: i)
  case Nil
  then show ?case by simp
next
  case (Cons x xs)
  show ?case
  proof (cases "item_id x")
    case (Inl p)
    with Cons.prems show ?thesis by (simp add: find_loop_step)
  next
    case (Inr n)
    show ?thesis
    proof (cases "n = ident")
      case True
      with Inr Cons.prems have "k = i" by (simp add: find_loop_step)
      with Inr True show ?thesis by (intro exI[of _ 0]) simp
    next
      case False
      with Inr Cons.prems have "find_loop (Suc i) xs ident = Inr (Some k)"
        by (simp add: find_loop_step)
      from Cons.IH[OF this] obtain n' where n': "k = Suc i + n'" "n' < length xs"
        "item_id (xs ! n') = Inr ident"
        "\<forall>j<n'. \<exists>m. item_id (xs ! j) = Inr m \<and> m \<noteq> ident" by blast
      have "\<forall>j<Suc n'. \<exists>m. item_id ((x # xs) ! j) = Inr m \<and> m \<noteq> ident"
        using n'(4) Inr False by (auto simp: less_Suc_eq_0_disj)
      with n' show ?thesis by (intro exI[of _ "Suc n'"]) simp
    qed
  qed
qed

lemma find_loop_first_found:
  "n < length xs \<Longrightarrow> item_id (xs ! n) = Inr ident \<Longrightarrow>
   (\<forall>j<n. \<exists>m. item_id (xs ! j) = Inr m \<and> m \<noteq> ident) \<Longrightarrow>
   find_loop i xs ident = Inr (Some (i + n))"
proof (induction xs arbitrary: i n)
  case Nil
  then show ?case by simp
next
  case (Cons x xs)
  show ?case
  proof (cases n)
    case 0
    with Cons.prems show ?thesis by (simp add: find_loop_step)
  next
    case (Suc n')
    from Cons.prems(3) Suc obtain m where m: "item_id x = Inr m" "m \<noteq> ident" by fastforce
    have "find_loop (Suc i) xs ident = Inr (Some (Suc i + n'))"
    proof (rule Cons.IH)
      show "n' < length xs" using Cons.prems(1) Suc by simp
      show "item_id (xs ! n') = Inr ident" using Cons.prems(2) Suc by simp
      show "\<forall>j<n'. \<exists>m. item_id (xs ! j) = Inr m \<and> m \<noteq> ident"
        using Cons.prems(3) Suc by fastforce
    qed
    with m Suc show ?thesis by (simp add: find_loop_step)
  qed
qed

lemma get_loop_find_loop:
  "get_loop xs ident =
     (case find_loop i xs ident of
        Inl p \<Rightarrow> Inl p
      | Inr None \<Rightarrow> Inr (http_Error ''Item not found'' 404)
      | Inr (Some k) \<Rightarrow> Inr \<lparr>status = 200, payload = Item (projr (assert_map (xs ! (k - i))))\<rparr>)"
proof (induction xs arbitrary: i)
  case Nil
  then show ?case by simp
next
  case (Cons x xs)
  show ?case
  proof (cases "item_id x")
    case (Inl p)
    then show ?thesis by (simp add: find_loop_step get_loop_step)
  next
    case (Inr n)
    show ?thesis
    proof (cases "n = ident")
      case True
      with Inr show ?thesis by (simp add: find_loop_step get_loop_step)
    next
      case False
      have "get_loop xs ident =
        (case find_loop (Suc i) xs ident of
          Inl p \<Rightarrow> Inl p
        | Inr None \<Rightarrow> Inr (http_Error ''Item not found'' 404)
        | Inr (Some k) \<Rightarrow> Inr \<lparr>status = 200, payload = Item (projr (assert_map (xs ! (k - Suc i))))\<rparr>)"
        by (rule Cons.IH)
      moreover have "\<And>k. find_loop (Suc i) xs ident = Inr (Some k) \<Longrightarrow> (x # xs) ! (k - i) = xs ! (k - Suc i)"
      proof -
        fix k assume "find_loop (Suc i) xs ident = Inr (Some k)"
        from find_loop_found_first[OF this] obtain n where "k = Suc i + n" by blast
        then show "(x # xs) ! (k - i) = xs ! (k - Suc i)" by simp
      qed
      ultimately show ?thesis using Inr False
        by (simp add: find_loop_step get_loop_step split: sum.splits option.splits)
    qed
  qed
qed

lemma hd_path_parts: "path_parts p = c # rest \<Longrightarrow> hd (path_parts p) = c"
  by simp

section \<open>What the handlers do once they reach the store\<close>

lemma item_id_Inr_VMap: "item_id x = Inr n \<Longrightarrow> \<exists>m. x = VMap m"
  by (cases x) (simp_all add: item_id_def)

lemma findItemIndex_iff:
  "findItemIndex s c ident = Inr (Some i) \<longleftrightarrow>
     i < length (elems (data_index s c))
     \<and> item_id (elems (data_index s c) ! i) = Inr ident
     \<and> (\<forall>j<i. \<exists>n. item_id (elems (data_index s c) ! j) = Inr n \<and> n \<noteq> ident)"
proof
  assume "findItemIndex s c ident = Inr (Some i)"
  then have "find_loop 0 (elems (data_index s c)) ident = Inr (Some i)"
    by (simp add: findItemIndex_def)
  from find_loop_found_first[OF this]
  show "i < length (elems (data_index s c))
     \<and> item_id (elems (data_index s c) ! i) = Inr ident
     \<and> (\<forall>j<i. \<exists>n. item_id (elems (data_index s c) ! j) = Inr n \<and> n \<noteq> ident)"
    by auto
next
  assume "i < length (elems (data_index s c))
     \<and> item_id (elems (data_index s c) ! i) = Inr ident
     \<and> (\<forall>j<i. \<exists>n. item_id (elems (data_index s c) ! j) = Inr n \<and> n \<noteq> ident)"
  then have "find_loop 0 (elems (data_index s c)) ident = Inr (Some (0 + i))"
    by (intro find_loop_first_found) blast+
  then show "findItemIndex s c ident = Inr (Some i)"
    by (simp add: findItemIndex_def)
qed

lemma nonempty_collection_store:
  assumes "i < length (elems (data_index s c))"
  shows "\<exists>d. data s = GoMap d \<and> d c = Some (GoSlice (elems (data_index s c)))"
proof (cases "data s")
  case NilMap
  with assms show ?thesis by (simp add: data_index_def)
next
  case (GoMap d)
  show ?thesis
  proof (cases "d c")
    case None
    with GoMap assms show ?thesis by (simp add: data_index_def)
  next
    case (Some sl)
    with GoMap assms show ?thesis by (cases sl) (simp_all add: data_index_def)
  qed
qed

lemma findItemIndex_found:
  assumes "findItemIndex s c ident = Inr (Some idx)"
  shows "idx < length (elems (data_index s c))"
    and "item_id (elems (data_index s c) ! idx) = Inr ident"
    and "\<forall>j<idx. \<exists>n. item_id (elems (data_index s c) ! j) = Inr n \<and> n \<noteq> ident"
    and "\<exists>d. data s = GoMap d \<and> d c = Some (GoSlice (elems (data_index s c)))"
proof -
  from assms show 1: "idx < length (elems (data_index s c))"
    and "item_id (elems (data_index s c) ! idx) = Inr ident"
    and "\<forall>j<idx. \<exists>n. item_id (elems (data_index s c) ! j) = Inr n \<and> n \<noteq> ident"
    by (simp_all add: findItemIndex_iff)
  from nonempty_collection_store[OF 1]
  show "\<exists>d. data s = GoMap d \<and> d c = Some (GoSlice (elems (data_index s c)))" .
qed

lemma handlePost_map:
  assumes "data s = GoMap d"
  shows "handlePost s c (DecodeMap m) io =
     ((case io of
         None \<Rightarrow> Inr \<lparr>status = 201, payload = Item
                  (if m ''id'' = None
                   then m(''id'' \<mapsto> VInt (int (length (elems (data_index s c))) + 1)) else m)\<rparr>
       | Some err \<Rightarrow> Inr (http_Error ''Failed to save data'' 500)),
      s\<lparr>data := GoMap (d(c \<mapsto> GoSlice (elems (data_index s c) @
            [VMap (if m ''id'' = None
                   then m(''id'' \<mapsto> VInt (int (length (elems (data_index s c))) + 1))
                   else m)])))\<rparr>)"
  using assms by (simp add: handlePost_def saveData_def Let_def split: option.splits)

lemma handlePost_NilMap:
  "data s = NilMap \<Longrightarrow> handlePost s c (DecodeMap m) io = (Inl NilMapAssignment, s)"
  by (simp add: handlePost_def Let_def)

lemma handlePut_found:
  assumes "1 < length parts" and "Atoi (parts ! 1) = Some ident"
    and "findItemIndex s c ident = Inr (Some idx)" and "data s = GoMap d"
  shows "handlePut s c parts (DecodeMap m) io =
     ((case io of
         None \<Rightarrow> Inr \<lparr>status = 200, payload = Item (m(''id'' \<mapsto> VInt ident))\<rparr>
       | Some err \<Rightarrow> Inr (http_Error ''Failed to save data'' 500)),
      s\<lparr>data := GoMap (d(c \<mapsto> GoSlice
            ((elems (data_index s c))[idx := VMap (m(''id'' \<mapsto> VInt ident))])))\<rparr>)"
proof -
  from findItemIndex_found(1,4)[OF assms(3)] assms(4)
  have "idx < length (elems (data_index s c))"
    and "d c = Some (GoSlice (elems (data_index s c)))" by auto
  with assms show ?thesis
    by (simp add: handlePut_def set_elem_def saveData_def Let_def split: option.splits)
qed

lemma handleDelete_found:
  assumes "1 < length parts" and "Atoi (parts ! 1) = Some ident"
    and "findItemIndex s c ident = Inr (Some idx)" and "data s = GoMap d"
  shows "handleDelete s c parts io =
     ((case io of
         None \<Rightarrow> Inr \<lparr>status = 200, payload = Empty\<rparr>
       | Some err \<Rightarrow> Inr (http_Error ''Failed to save data'' 500)),
      s\<lparr>data := GoMap (d(c \<mapsto> GoSlice
            (take idx (elems (data_index s c)) @ drop (Suc idx) (elems (data_index s c)))))\<rparr>)"
  using assms by (simp add: handleDelete_def saveData_def Let_def split: option.splits)

lemma find_loop_append:
  "find_loop i (xs @ ys) ident =
     (case find_loop i xs ident of
        Inr None \<Rightarrow> find_loop (i + length xs) ys ident
      | res \<Rightarrow> res)"
  by (induction xs arbitrary: i) (simp_all add: find_loop_step split: sum.splits option.splits)

lemma find_loop_auto_id:
  "find_loop i (xs @ [VMap (m(''id'' \<mapsto> VInt n))]) ident =
     (case find_loop i xs ident of
        Inr None \<Rightarrow> Inl InterfaceConversion
      | res \<Rightarrow> res)"
  by (simp add: find_loop_append find_loop_step item_id_def map_index_def
        split: sum.splits option.splits)

lemma lookup_after_auto_id_post:
  assumes "m ''id'' = None" and "data s = GoMap d"
  shows "findItemIndex (snd (handlePost s c (DecodeMap m) io)) c ident =
     (case findItemIndex s c ident of
        Inr None \<Rightarrow> Inl InterfaceConversion
      | res \<Rightarrow> res)"
  using assms
  by (simp add: handlePost_map findItemIndex_def data_index_def find_loop_auto_id)

lemma route_GET:
  "Method r = ''GET'' \<Longrightarrow>
     handleCollection s r io = (handleGet s (hd (path_parts (Path r))) (path_parts (Path r)), s)"
  by (simp add: handleCollection_def Let_def)

lemma route_POST:
  "Method r = ''POST'' \<Longrightarrow>
     handleCollection s r io = handlePost s (hd (path_parts (Path r))) (Body r) io"
  by (simp add: handleCollection_def Let_def)

lemma route_PUT:
  "Method r = ''PUT'' \<Longrightarrow>
     handleCollection s r io =
       handlePut s (hd (path_parts (Path r))) (path_parts (Path r)) (Body r) io"
  by (simp add: handleCollection_def Let_def)

lemma route_DELETE:
  "Method r = ''DELETE'' \<Longrightarrow>
     handleCollection s r io = handleDelete s (hd (path_parts (Path r))) (path_parts (Path r)) io"
  by (simp add: handleCollection_def Let_def)

lemma handleGet_found:
  assumes "1 < length parts" and "Atoi (parts ! 1) = Some ident"
    and "findItemIndex s c ident = Inr (Some idx)"
    and "elems (data_index s c) ! idx = VMap m"
  shows "handleGet s c parts = Inr \<lparr>status = 200, payload = Item m\<rparr>"
proof -
  from findItemIndex_found(4)[OF assms(3)]
  have d: "map_lookup (data s) c = Some (GoSlice (elems (data_index s c)))" by auto
  have "get_loop (elems (data_index s c)) ident = Inr \<lparr>status = 200, payload = Item m\<rparr>"
    using assms(3,4) get_loop_find_loop[of "elems (data_index s c)" ident 0]
    by (simp add: findItemIndex_def)
  with d assms(1,2) show ?thesis by (simp add: handleGet_def)
qed

lemma handleGet_list:
  "map_lookup (data s) c = Some items \<Longrightarrow>
     handleGet s c [c] = Inr \<lparr>status = 200, payload = Items items\<rparr>"
  by (simp add: handleGet_def)

lemma map_assign_keeps_keys:
  "map_assign d k v = Inr d' \<Longrightarrow> map_lookup d c \<noteq> None \<Longrightarrow> map_lookup d' c \<noteq> None"
  by (cases d) auto

lemma set_elem_keeps_keys:
  "set_elem d k i x = Inr d' \<Longrightarrow> map_lookup d c \<noteq> None \<Longrightarrow> map_lookup d' c \<noteq> None"
  by (cases d) (auto simp: set_elem_def split: option.splits slice.splits if_splits)

lemma handlePost_keeps_keys:
  "map_lookup (data s) c \<noteq> None \<Longrightarrow> map_lookup (data (snd (handlePost s c' b io))) c \<noteq> None"
  by (cases b)
     (auto simp: handlePost_def saveData_def Let_def split: option.splits sum.splits
           dest: map_assign_keeps_keys)

lemma handlePut_keeps_keys:
  "map_lookup (data s) c \<noteq> None \<Longrightarrow>
     map_lookup (data (snd (handlePut s c' parts b io))) c \<noteq> None"
  by (cases b)
     (auto simp: handlePut_def saveData_def Let_def split: option.splits sum.splits
           dest: set_elem_keeps_keys)

lemma handleDelete_keeps_keys:
  "map_lookup (data s) c \<noteq> None \<Longrightarrow>
     map_lookup (data (snd (handleDelete s c' parts io))) c \<noteq> None"
  by (auto simp: handleDelete_def saveData_def Let_def split: option.splits sum.splits
           dest: map_assign_keeps_keys)

section \<open>Identifier tokens that are not integers\<close>

text \<open>
  Claim C1, as stated, fails for GET: the token is parsed only after the collection has
  been looked up, so GET /posts/abc on a store without the collection posts is answered
  404 "Collection not found", not 400.
\<close>

theorem invalid_id_get_unknown_collection:
  "Atoi ''abc'' = None
   \<and> path_parts ''/posts/abc'' = [''posts'', ''abc'']
   \<and> handleCollection \<lparr>data = GoMap Map.empty, filename = ''db.json''\<rparr>
        \<lparr>Method = ''GET'', Path = ''/posts/abc'', Body = DecodeErr ''EOF''\<rparr> None
      = (Inr \<lparr>status = 404, payload = Text ''Collection not found''\<rparr>,
         \<lparr>data = GoMap Map.empty, filename = ''db.json''\<rparr>)"
  by (simp add: Atoi_def is_digit_def path_parts_def Trim_def handleCollection_def
        handleGet_def http_Error_def)

text \<open>
  Claim C1, amended. When the identifier token does not parse as an integer, PUT and
  DELETE answer 400 "Invalid ID" for every store (so whether or not the collection is a
  key, and without a change of the store); GET answers 400 "Invalid ID" when the
  collection is a key of the store, and 404 "Collection not found" when it is not.
\<close>

theorem invalid_id_bad_request:
  assumes "path_parts (Path r) = c # tok # rest" and "Atoi tok = None"
  shows "(Method r = ''PUT'' \<or> Method r = ''DELETE'' \<longrightarrow>
            handleCollection s r io = (Inr (http_Error ''Invalid ID'' 400), s))
       \<and> (Method r = ''GET'' \<and> map_lookup (data s) c \<noteq> None \<longrightarrow>
            handleCollection s r io = (Inr (http_Error ''Invalid ID'' 400), s))
       \<and> (Method r = ''GET'' \<and> map_lookup (data s) c = None \<longrightarrow>
            handleCollection s r io = (Inr (http_Error ''Collection not found'' 404), s))"
  using assms
  by (auto simp: handleCollection_def handleGet_def handlePut_def handleDelete_def)

theorem invalid_id_bad_request_witness:
  "handleCollection \<lparr>data = GoMap Map.empty, filename = ''db.json''\<rparr>
        \<lparr>Method = ''DELETE'', Path = ''/posts/abc'', Body = DecodeErr ''EOF''\<rparr> None
      = (Inr (http_Error ''Invalid ID'' 400), \<lparr>data = GoMap Map.empty, filename = ''db.json''\<rparr>)
   \<and> handleCollection \<lparr>data = GoMap [''posts'' \<mapsto> GoSlice []], filename = ''db.json''\<rparr>
        \<lparr>Method = ''GET'', Path = ''/posts/abc'', Body = DecodeErr ''EOF''\<rparr> None
      = (Inr (http_Error ''Invalid ID'' 400),
         \<lparr>data = GoMap [''posts'' \<mapsto> GoSlice []], filename = ''db.json''\<rparr>)
   \<and> handleCollection \<lparr>data = GoMap Map.empty, filename = ''db.json''\<rparr>
        \<lparr>Method = ''GET'', Path = ''/posts/abc'', Body = DecodeErr ''EOF''\<rparr> None
      = (Inr (http_Error ''Collection not found'' 404),
         \<lparr>data = GoMap Map.empty, filename = ''db.json''\<rparr>)"
proof -
  let ?s0 = "\<lparr>data = GoMap Map.empty, filename = ''db.json''\<rparr>"
  let ?s1 = "\<lparr>data = GoMap [''posts'' \<mapsto> GoSlice []], filename = ''db.json''\<rparr>"
  let ?del = "\<lparr>Method = ''DELETE'', Path = ''/posts/abc'', Body = DecodeErr ''EOF''\<rparr>"
  let ?get = "\<lparr>Method = ''GET'', Path = ''/posts/abc'', Body = DecodeErr ''EOF''\<rparr>"
  have a: "Atoi ''abc'' = None" by (simp add: Atoi_def is_digit_def)
  have pd: "path_parts (Path ?del) = ''posts'' # ''abc'' # []"
    and pg: "path_parts (Path ?get) = ''posts'' # ''abc'' # []"
    by (simp_all add: path_parts_def Trim_def)
  have "Method ?del = ''DELETE''" "Method ?get = ''GET''"
       "map_lookup (data ?s1) ''posts'' \<noteq> None" "map_lookup (data ?s0) ''posts'' = None"
    by simp_all
  with invalid_id_bad_request[OF pd a, where s = ?s0 and io = None]
       invalid_id_bad_request[OF pg a, where s = ?s1 and io = None]
       invalid_id_bad_request[OF pg a, where s = ?s0 and io = None]
  show ?thesis by blast
qed

section \<open>Lookups after an identifier was assigned by a handler\<close>

text \<open>
  Claim C2 fails on the code. \<^verbatim>\<open>handlePost\<close> stores the identifier it assigns as a Go
  \<^verbatim>\<open>int\<close>, and both scans assert \<^verbatim>\<open>float64\<close>. With the store of the README
  (one post with id 1), POST /posts with the body of the README stores the new post
  with id 2; then \<^verbatim>\<open>findItemIndex\<close> for 2 panics, and GET /posts/2 ends in that panic
  without a response.
\<close>

theorem lookup_of_auto_assigned_id_panics:
  "handleCollection
     \<lparr>data = GoMap [''posts'' \<mapsto>
         GoSlice [VMap [''id'' \<mapsto> VFloat64 1, ''title'' \<mapsto> VString ''First Post'']]],
      filename = ''db.json''\<rparr>
     \<lparr>Method = ''POST'', Path = ''/posts'', Body = DecodeMap [''title'' \<mapsto> VString ''New Post'']\<rparr>
     None
   = (Inr \<lparr>status = 201, payload = Item [''title'' \<mapsto> VString ''New Post'', ''id'' \<mapsto> VInt 2]\<rparr>,
      \<lparr>data = GoMap [''posts'' \<mapsto>
          GoSlice [VMap [''id'' \<mapsto> VFloat64 1, ''title'' \<mapsto> VString ''First Post''],
                   VMap [''title'' \<mapsto> VString ''New Post'', ''id'' \<mapsto> VInt 2]]],
       filename = ''db.json''\<rparr>)
   \<and> findItemIndex
        \<lparr>data = GoMap [''posts'' \<mapsto>
            GoSlice [VMap [''id'' \<mapsto> VFloat64 1, ''title'' \<mapsto> VString ''First Post''],
                     VMap [''title'' \<mapsto> VString ''New Post'', ''id'' \<mapsto> VInt 2]]],
         filename = ''db.json''\<rparr> ''posts'' 2
      = Inl InterfaceConversion
   \<and> fst (handleCollection
        \<lparr>data = GoMap [''posts'' \<mapsto>
            GoSlice [VMap [''id'' \<mapsto> VFloat64 1, ''title'' \<mapsto> VString ''First Post''],
                     VMap [''title'' \<mapsto> VString ''New Post'', ''id'' \<mapsto> VInt 2]]],
         filename = ''db.json''\<rparr>
        \<lparr>Method = ''GET'', Path = ''/posts/2'', Body = DecodeErr ''EOF''\<rparr> None)
      = Inl InterfaceConversion"
  by (simp add: handleCollection_def path_parts_def Trim_def handlePost_def saveData_def
        Let_def data_index_def
        findItemIndex_def find_loop_step item_id_def map_index_def float64_to_int_def
        handleGet_def Atoi_def is_digit_def digit_val_def get_loop_step)

text \<open>
  \<^verbatim>\<open>handlePut\<close> writes the path identifier as an \<^verbatim>\<open>int\<close> as well: with the
  requests of the README, PUT /posts/1 followed by DELETE /posts/1 ends in the same panic.
\<close>

lemma lookup_after_put_panics:
  "snd (handleCollection
     \<lparr>data = GoMap [''posts'' \<mapsto>
         GoSlice [VMap [''id'' \<mapsto> VFloat64 1, ''title'' \<mapsto> VString ''First Post'']]],
      filename = ''db.json''\<rparr>
     \<lparr>Method = ''PUT'', Path = ''/posts/1'', Body = DecodeMap [''title'' \<mapsto> VString ''Updated Post'']\<rparr>
     None)
   = \<lparr>data = GoMap [''posts'' \<mapsto>
         GoSlice [VMap [''title'' \<mapsto> VString ''Updated Post'', ''id'' \<mapsto> VInt 1]]],
      filename = ''db.json''\<rparr>
   \<and> handleCollection
        \<lparr>data = GoMap [''posts'' \<mapsto>
            GoSlice [VMap [''title'' \<mapsto> VString ''Updated Post'', ''id'' \<mapsto> VInt 1]]],
         filename = ''db.json''\<rparr>
        \<lparr>Method = ''DELETE'', Path = ''/posts/1'', Body = DecodeErr ''EOF''\<rparr> None
      = (Inl InterfaceConversion,
         \<lparr>data = GoMap [''posts'' \<mapsto>
             GoSlice [VMap [''title'' \<mapsto> VString ''Updated Post'', ''id'' \<mapsto> VInt 1]]],
          filename = ''db.json''\<rparr>)"
  by (simp add: handleCollection_def path_parts_def Trim_def handlePut_def handleDelete_def
        set_elem_def saveData_def data_index_def findItemIndex_def find_loop_step item_id_def
        map_index_def float64_to_int_def Atoi_def is_digit_def digit_val_def Let_def)

section \<open>Identifiers assigned on create\<close>

text \<open>
  Claim C3, the scenario of its last sentence, run on the code: POST on the empty
  collection assigns id 1; DELETE /posts/1 in the same process panics in
  \<^verbatim>\<open>findItemIndex\<close> and leaves the record in place; the second POST is assigned id 2,
  not 1.
\<close>

theorem post_delete_post_assigns_two:
  "handleCollection \<lparr>data = GoMap [''posts'' \<mapsto> GoSlice []], filename = ''db.json''\<rparr>
     \<lparr>Method = ''POST'', Path = ''/posts'', Body = DecodeMap [''title'' \<mapsto> VString ''x'']\<rparr> None
   = (Inr \<lparr>status = 201, payload = Item [''title'' \<mapsto> VString ''x'', ''id'' \<mapsto> VInt 1]\<rparr>,
      \<lparr>data = GoMap [''posts'' \<mapsto> GoSlice [VMap [''title'' \<mapsto> VString ''x'', ''id'' \<mapsto> VInt 1]]],
       filename = ''db.json''\<rparr>)
   \<and> handleCollection
        \<lparr>data = GoMap [''posts'' \<mapsto> GoSlice [VMap [''title'' \<mapsto> VString ''x'', ''id'' \<mapsto> VInt 1]]],
         filename = ''db.json''\<rparr>
        \<lparr>Method = ''DELETE'', Path = ''/posts/1'', Body = DecodeErr ''EOF''\<rparr> None
      = (Inl InterfaceConversion,
         \<lparr>data = GoMap [''posts'' \<mapsto> GoSlice [VMap [''title'' \<mapsto> VString ''x'', ''id'' \<mapsto> VInt 1]]],
          filename = ''db.json''\<rparr>)
   \<and> fst (handleCollection
        \<lparr>data = GoMap [''posts'' \<mapsto> GoSlice [VMap [''title'' \<mapsto> VString ''x'', ''id'' \<mapsto> VInt 1]]],
         filename = ''db.json''\<rparr>
        \<lparr>Method = ''POST'', Path = ''/posts'', Body = DecodeMap [''title'' \<mapsto> VString ''y'']\<rparr> None)
      = Inr \<lparr>status = 201, payload = Item [''title'' \<mapsto> VString ''y'', ''id'' \<mapsto> VInt 2]\<rparr>"
  by (simp add: handleCollection_def path_parts_def Trim_def handlePost_def saveData_def
        Let_def data_index_def
        findItemIndex_def find_loop_step item_id_def map_index_def
        handleDelete_def Atoi_def is_digit_def digit_val_def)

section \<open>Replace\<close>

text \<open>
  Where the record at index idx is the first of the collection with the path id, and the
  ids up to it are the float64 values that the JSON decoder produces, PUT does what is
  asked of it: that record is replaced by the body's record with its id set to the path
  id, nothing else in the store changes, and the response carries the new record when
  the save succeeds.
\<close>

lemma put_where_lookup_finds:
  assumes "Method r = ''PUT''" and "path_parts (Path r) = c # tok # rest"
    and "Atoi tok = Some ident" and "Body r = DecodeMap m"
    and "idx < length (elems (data_index s c))"
    and "item_id (elems (data_index s c) ! idx) = Inr ident"
    and "\<forall>j<idx. \<exists>n. item_id (elems (data_index s c) ! j) = Inr n \<and> n \<noteq> ident"
  shows "fst (handleCollection s r io) =
           (case io of
              None \<Rightarrow> Inr \<lparr>status = 200, payload = Item (m(''id'' \<mapsto> VInt ident))\<rparr>
            | Some err \<Rightarrow> Inr (http_Error ''Failed to save data'' 500))
       \<and> map_lookup (data (snd (handleCollection s r io))) c =
           Some (GoSlice ((elems (data_index s c))[idx := VMap (m(''id'' \<mapsto> VInt ident))]))
       \<and> (\<forall>c'. c' \<noteq> c \<longrightarrow>
              map_lookup (data (snd (handleCollection s r io))) c' = map_lookup (data s) c')"
proof -
  from assms(5-7) have f: "findItemIndex s c ident = Inr (Some idx)"
    by (simp add: findItemIndex_iff)
  from findItemIndex_found(4)[OF f] obtain d where d: "data s = GoMap d" by blast
  have run: "handleCollection s r io =
     ((case io of
         None \<Rightarrow> Inr \<lparr>status = 200, payload = Item (m(''id'' \<mapsto> VInt ident))\<rparr>
       | Some err \<Rightarrow> Inr (http_Error ''Failed to save data'' 500)),
      s\<lparr>data := GoMap (d(c \<mapsto> GoSlice
            ((elems (data_index s c))[idx := VMap (m(''id'' \<mapsto> VInt ident))])))\<rparr>)"
    using assms(1-4) f d by (simp add: route_PUT handlePut_found)
  show ?thesis by (simp add: run d)
qed

text \<open>
  Claim C4 fails on the code. With the store and the request of the README, a first
  PUT /posts/1 replaces the record as claimed and writes its id as a Go \<^verbatim>\<open>int\<close>. The
  record with id 1 exists, the token is valid and the body decodes, yet a second
  PUT /posts/1 panics in \<^verbatim>\<open>findItemIndex\<close>: nothing is replaced and no response is
  written.
\<close>

theorem second_put_panics:
  "handleCollection
     \<lparr>data = GoMap [''posts'' \<mapsto>
         GoSlice [VMap [''id'' \<mapsto> VFloat64 1, ''title'' \<mapsto> VString ''First Post'']]],
      filename = ''db.json''\<rparr>
     \<lparr>Method = ''PUT'', Path = ''/posts/1'', Body = DecodeMap [''title'' \<mapsto> VString ''Updated Post'']\<rparr>
     None
   = (Inr \<lparr>status = 200, payload = Item [''title'' \<mapsto> VString ''Updated Post'', ''id'' \<mapsto> VInt 1]\<rparr>,
      \<lparr>data = GoMap [''posts'' \<mapsto>
          GoSlice [VMap [''title'' \<mapsto> VString ''Updated Post'', ''id'' \<mapsto> VInt 1]]],
       filename = ''db.json''\<rparr>)
   \<and> handleCollection
        \<lparr>data = GoMap [''posts'' \<mapsto>
            GoSlice [VMap [''title'' \<mapsto> VString ''Updated Post'', ''id'' \<mapsto> VInt 1]]],
         filename = ''db.json''\<rparr>
        \<lparr>Method = ''PUT'', Path = ''/posts/1'', Body = DecodeMap [''title'' \<mapsto> VString ''Again'']\<rparr>
        None
      = (Inl InterfaceConversion,
         \<lparr>data = GoMap [''posts'' \<mapsto>
             GoSlice [VMap [''title'' \<mapsto> VString ''Updated Post'', ''id'' \<mapsto> VInt 1]]],
          filename = ''db.json''\<rparr>)"
  by (simp add: handleCollection_def path_parts_def Trim_def handlePut_def
        set_elem_def saveData_def data_index_def findItemIndex_def find_loop_step item_id_def
        map_index_def float64_to_int_def Atoi_def is_digit_def digit_val_def Let_def)

section \<open>Delete\<close>

text \<open>
  Claim C5, as stated, fails when the save fails: the record is removed and the response
  is 500 "Failed to save data", not 200.
\<close>

theorem delete_with_failed_save_is_500:
  "findItemIndex
      \<lparr>data = GoMap [''posts'' \<mapsto> GoSlice [VMap [''id'' \<mapsto> VFloat64 1]]], filename = ''db.json''\<rparr>
      ''posts'' 1 = Inr (Some 0)
   \<and> handleCollection
        \<lparr>data = GoMap [''posts'' \<mapsto> GoSlice [VMap [''id'' \<mapsto> VFloat64 1]]], filename = ''db.json''\<rparr>
        \<lparr>Method = ''DELETE'', Path = ''/posts/1'', Body = DecodeErr ''EOF''\<rparr>
        (Some ''write db.json: no space left on device'')
      = (Inr \<lparr>status = 500, payload = Text ''Failed to save data''\<rparr>,
         \<lparr>data = GoMap [''posts'' \<mapsto> GoSlice []], filename = ''db.json''\<rparr>)"
  by (simp add: findItemIndex_def data_index_def find_loop_step item_id_def map_index_def
        float64_to_int_def handleCollection_def path_parts_def Trim_def handleDelete_def
        Atoi_def is_digit_def digit_val_def saveData_def http_Error_def)

text \<open>
  Claim C5, amended. For DELETE /c/tok where tok parses as the integer ident, the
  record at index idx of c holds ident as its id, and every record of c before idx holds
  an id other than ident (an id being held as the float64 that the JSON decoder
  produces, read as an integer): exactly the record at idx is removed, so that the
  collection becomes its elements before idx followed by those after idx, one record
  fewer and the rest in their order; the other collections are unchanged; and the
  response is 200 with an empty body when the save succeeds and 500
  "Failed to save data" when it fails. Collections in which a record at or before the
  match holds its id in another representation are not covered.
\<close>

theorem delete_removes_first_match:
  assumes "Method r = ''DELETE''" and "path_parts (Path r) = c # tok # rest"
    and "Atoi tok = Some ident"
    and "idx < length (elems (data_index s c))"
    and "item_id (elems (data_index s c) ! idx) = Inr ident"
    and "\<forall>j<idx. \<exists>n. item_id (elems (data_index s c) ! j) = Inr n \<and> n \<noteq> ident"
  shows "fst (handleCollection s r io) =
           (case io of
              None \<Rightarrow> Inr \<lparr>status = 200, payload = Empty\<rparr>
            | Some err \<Rightarrow> Inr (http_Error ''Failed to save data'' 500))
       \<and> map_lookup (data (snd (handleCollection s r io))) c =
           Some (GoSlice (take idx (elems (data_index s c))
                          @ drop (Suc idx) (elems (data_index s c))))
       \<and> Suc (length (elems (data_index (snd (handleCollection s r io)) c)))
           = length (elems (data_index s c))
       \<and> (\<forall>c'. c' \<noteq> c \<longrightarrow>
              map_lookup (data (snd (handleCollection s r io))) c' = map_lookup (data s) c')"
proof -
  from assms(4-6) have f: "findItemIndex s c ident = Inr (Some idx)"
    by (simp add: findItemIndex_iff)
  from nonempty_collection_store[OF assms(4)] obtain d where d: "data s = GoMap d" by blast
  have run: "handleCollection s r io =
     ((case io of
         None \<Rightarrow> Inr \<lparr>status = 200, payload = Empty\<rparr>
       | Some err \<Rightarrow> Inr (http_Error ''Failed to save data'' 500)),
      s\<lparr>data := GoMap (d(c \<mapsto> GoSlice
            (take idx (elems (data_index s c)) @ drop (Suc idx) (elems (data_index s c)))))\<rparr>)"
    using assms(1-3) f d by (simp add: route_DELETE handleDelete_found)
  have len: "Suc (length (take idx (elems (data_index s c))
                          @ drop (Suc idx) (elems (data_index s c))))
               = length (elems (data_index s c))"
    using assms(4) by simp
  have after: "data_index (s\<lparr>data := GoMap (d(c \<mapsto> GoSlice
            (take idx (elems (data_index s c)) @ drop (Suc idx) (elems (data_index s c)))))\<rparr>) c
       = GoSlice (take idx (elems (data_index s c)) @ drop (Suc idx) (elems (data_index s c)))"
    by (simp add: data_index_def)
  show ?thesis
    unfolding run using len by (simp add: after d)
qed

theorem delete_removes_first_match_witness:
  "fst (handleCollection
     \<lparr>data = GoMap [''posts'' \<mapsto> GoSlice [VMap [''id'' \<mapsto> VFloat64 1], VMap [''id'' \<mapsto> VFloat64 2],
                                           VMap [''id'' \<mapsto> VFloat64 3], VMap [''id'' \<mapsto> VFloat64 2]],
                    ''users'' \<mapsto> GoSlice [VMap [''id'' \<mapsto> VFloat64 2]]],
      filename = ''db.json''\<rparr>
     \<lparr>Method = ''DELETE'', Path = ''/posts/2'', Body = DecodeErr ''EOF''\<rparr> None)
   = Inr \<lparr>status = 200, payload = Empty\<rparr>
   \<and> map_lookup (data (snd (handleCollection
     \<lparr>data = GoMap [''posts'' \<mapsto> GoSlice [VMap [''id'' \<mapsto> VFloat64 1], VMap [''id'' \<mapsto> VFloat64 2],
                                           VMap [''id'' \<mapsto> VFloat64 3], VMap [''id'' \<mapsto> VFloat64 2]],
                    ''users'' \<mapsto> GoSlice [VMap [''id'' \<mapsto> VFloat64 2]]],
      filename = ''db.json''\<rparr>
     \<lparr>Method = ''DELETE'', Path = ''/posts/2'', Body = DecodeErr ''EOF''\<rparr> None))) ''posts''
   = Some (GoSlice [VMap [''id'' \<mapsto> VFloat64 1], VMap [''id'' \<mapsto> VFloat64 3],
                    VMap [''id'' \<mapsto> VFloat64 2]])
   \<and> map_lookup (data (snd (handleCollection
     \<lparr>data = GoMap [''posts'' \<mapsto> GoSlice [VMap [''id'' \<mapsto> VFloat64 1], VMap [''id'' \<mapsto> VFloat64 2],
                                           VMap [''id'' \<mapsto> VFloat64 3], VMap [''id'' \<mapsto> VFloat64 2]],
                    ''users'' \<mapsto> GoSlice [VMap [''id'' \<mapsto> VFloat64 2]]],
      filename = ''db.json''\<rparr>
     \<lparr>Method = ''DELETE'', Path = ''/posts/2'', Body = DecodeErr ''EOF''\<rparr> None))) ''users''
   = Some (GoSlice [VMap [''id'' \<mapsto> VFloat64 2]])"
proof -
  let ?xs = "[VMap [''id'' \<mapsto> VFloat64 1], VMap [''id'' \<mapsto> VFloat64 2],
              VMap [''id'' \<mapsto> VFloat64 3], VMap [''id'' \<mapsto> VFloat64 2]]"
  let ?s = "\<lparr>data = GoMap [''posts'' \<mapsto> GoSlice ?xs,
                    ''users'' \<mapsto> GoSlice [VMap [''id'' \<mapsto> VFloat64 2]]],
      filename = ''db.json''\<rparr>"
  let ?r = "\<lparr>Method = ''DELETE'', Path = ''/posts/2'', Body = DecodeErr ''EOF''\<rparr>"
  have di: "elems (data_index ?s ''posts'') = ?xs" by (simp add: data_index_def)
  have h1: "Method ?r = ''DELETE''" by simp
  have h2: "path_parts (Path ?r) = ''posts'' # ''2'' # []"
    by (simp add: path_parts_def Trim_def)
  have h3: "Atoi ''2'' = Some 2" by (simp add: Atoi_def is_digit_def digit_val_def)
  have h4: "(1::nat) < length (elems (data_index ?s ''posts''))" unfolding di by simp
  have h5: "item_id (elems (data_index ?s ''posts'') ! 1) = Inr 2"
    unfolding di by (simp add: item_id_def map_index_def float64_to_int_def)
  have h6: "\<forall>j<(1::nat). \<exists>n. item_id (elems (data_index ?s ''posts'') ! j) = Inr n \<and> n \<noteq> 2"
    unfolding di by (simp add: item_id_def map_index_def float64_to_int_def)
  have ne: "''users'' \<noteq> ''posts''" by simp
  from delete_removes_first_match[OF h1 h2 h3 h4 h5 h6, where io = None] ne
  show ?thesis unfolding di by simp
qed

section \<open>A failed save\<close>

lemma snd_handlePost_io: "snd (handlePost s c b io) = snd (handlePost s c b io')"
  by (cases b)
     (simp_all add: handlePost_def saveData_def Let_def split: option.splits sum.splits)

lemma snd_handlePut_io: "snd (handlePut s c parts b io) = snd (handlePut s c parts b io')"
  by (cases b)
     (simp_all add: handlePut_def saveData_def Let_def split: option.splits sum.splits)

lemma snd_handleDelete_io: "snd (handleDelete s c parts io) = snd (handleDelete s c parts io')"
  by (simp add: handleDelete_def saveData_def Let_def split: option.splits sum.splits)

text \<open>
  Claim C6. Whenever POST, PUT or DELETE reaches its mutation (POST with a record as
  body, on a store that can be written; PUT with an integer token, a record as body and
  a found index; DELETE with an integer token and a found index) and the save fails
  with any error, the response is 500 "Failed to save data", the state left behind is
  exactly the state that the same request leaves when the save succeeds, and a
  following GET of the collection lists the mutated sequence.
\<close>

theorem failed_save_is_not_rolled_back:
  "(Method r = ''POST'' \<and> hd (path_parts (Path r)) = c \<and> Body r = DecodeMap m
        \<and> data s = GoMap d \<longrightarrow>
      fst (handleCollection s r (Some err)) = Inr (http_Error ''Failed to save data'' 500)
      \<and> snd (handleCollection s r (Some err)) = snd (handleCollection s r None)
      \<and> handleGet (snd (handleCollection s r (Some err))) c [c] =
          Inr \<lparr>status = 200, payload = Items (GoSlice (elems (data_index s c) @
            [VMap (if m ''id'' = None
                   then m(''id'' \<mapsto> VInt (int (length (elems (data_index s c))) + 1))
                   else m)]))\<rparr>)
   \<and> (Method r = ''PUT'' \<and> path_parts (Path r) = c # tok # rest \<and> Atoi tok = Some ident
        \<and> Body r = DecodeMap m \<and> findItemIndex s c ident = Inr (Some idx) \<longrightarrow>
      fst (handleCollection s r (Some err)) = Inr (http_Error ''Failed to save data'' 500)
      \<and> snd (handleCollection s r (Some err)) = snd (handleCollection s r None)
      \<and> handleGet (snd (handleCollection s r (Some err))) c [c] =
          Inr \<lparr>status = 200, payload = Items (GoSlice
            ((elems (data_index s c))[idx := VMap (m(''id'' \<mapsto> VInt ident))]))\<rparr>)
   \<and> (Method r = ''DELETE'' \<and> path_parts (Path r) = c # tok # rest \<and> Atoi tok = Some ident
        \<and> findItemIndex s c ident = Inr (Some idx) \<longrightarrow>
      fst (handleCollection s r (Some err)) = Inr (http_Error ''Failed to save data'' 500)
      \<and> snd (handleCollection s r (Some err)) = snd (handleCollection s r None)
      \<and> handleGet (snd (handleCollection s r (Some err))) c [c] =
          Inr \<lparr>status = 200, payload = Items (GoSlice
            (take idx (elems (data_index s c)) @ drop (Suc idx) (elems (data_index s c))))\<rparr>)"
proof (intro conjI impI)
  assume a: "Method r = ''POST'' \<and> hd (path_parts (Path r)) = c \<and> Body r = DecodeMap m
        \<and> data s = GoMap d"
  then have run: "\<And>io. handleCollection s r io = handlePost s c (DecodeMap m) io"
    by (simp add: route_POST)
  from a have d: "data s = GoMap d" by simp
  show "fst (handleCollection s r (Some err)) = Inr (http_Error ''Failed to save data'' 500)"
    by (simp add: run handlePost_map[OF d])
  show "snd (handleCollection s r (Some err)) = snd (handleCollection s r None)"
    by (simp add: run snd_handlePost_io[of s c _ "Some err" None])
  show "handleGet (snd (handleCollection s r (Some err))) c [c] =
          Inr \<lparr>status = 200, payload = Items (GoSlice (elems (data_index s c) @
            [VMap (if m ''id'' = None
                   then m(''id'' \<mapsto> VInt (int (length (elems (data_index s c))) + 1))
                   else m)]))\<rparr>"
    by (simp add: run handlePost_map[OF d] handleGet_list)
next
  assume a: "Method r = ''PUT'' \<and> path_parts (Path r) = c # tok # rest \<and> Atoi tok = Some ident
        \<and> Body r = DecodeMap m \<and> findItemIndex s c ident = Inr (Some idx)"
  then have f: "findItemIndex s c ident = Inr (Some idx)" by simp
  from findItemIndex_found(4)[OF f] obtain d' where d: "data s = GoMap d'" by blast
  from a d have run: "\<And>io. handleCollection s r io =
     ((case io of
         None \<Rightarrow> Inr \<lparr>status = 200, payload = Item (m(''id'' \<mapsto> VInt ident))\<rparr>
       | Some err \<Rightarrow> Inr (http_Error ''Failed to save data'' 500)),
      s\<lparr>data := GoMap (d'(c \<mapsto> GoSlice
            ((elems (data_index s c))[idx := VMap (m(''id'' \<mapsto> VInt ident))])))\<rparr>)"
    by (simp add: route_PUT handlePut_found)
  show "fst (handleCollection s r (Some err)) = Inr (http_Error ''Failed to save data'' 500)"
    by (simp add: run)
  show "snd (handleCollection s r (Some err)) = snd (handleCollection s r None)"
    by (simp add: run)
  show "handleGet (snd (handleCollection s r (Some err))) c [c] =
          Inr \<lparr>status = 200, payload = Items (GoSlice
            ((elems (data_index s c))[idx := VMap (m(''id'' \<mapsto> VInt ident))]))\<rparr>"
    by (simp add: run handleGet_list)
next
  assume a: "Method r = ''DELETE'' \<and> path_parts (Path r) = c # tok # rest \<and> Atoi tok = Some ident
        \<and> findItemIndex s c ident = Inr (Some idx)"
  then have f: "findItemIndex s c ident = Inr (Some idx)" by simp
  from findItemIndex_found(4)[OF f] obtain d' where d: "data s = GoMap d'" by blast
  from a d have run: "\<And>io. handleCollection s r io =
     ((case io of
         None \<Rightarrow> Inr \<lparr>status = 200, payload = Empty\<rparr>
       | Some err \<Rightarrow> Inr (http_Error ''Failed to save data'' 500)),
      s\<lparr>data := GoMap (d'(c \<mapsto> GoSlice
            (take idx (elems (data_index s c)) @ drop (Suc idx) (elems (data_index s c)))))\<rparr>)"
    by (simp add: route_DELETE handleDelete_found)
  show "fst (handleCollection s r (Some err)) = Inr (http_Error ''Failed to save data'' 500)"
    by (simp add: run)
  show "snd (handleCollection s r (Some err)) = snd (handleCollection s r None)"
    by (simp add: run)
  show "handleGet (snd (handleCollection s r (Some err))) c [c] =
          Inr \<lparr>status = 200, payload = Items (GoSlice
            (take idx (elems (data_index s c)) @ drop (Suc idx) (elems (data_index s c))))\<rparr>"
    by (simp add: run handleGet_list)
qed

theorem failed_save_is_not_rolled_back_witness:
  "handleCollection
      \<lparr>data = GoMap [''posts'' \<mapsto> GoSlice [VMap [''id'' \<mapsto> VFloat64 1]]], filename = ''db.json''\<rparr>
      \<lparr>Method = ''POST'', Path = ''/posts'', Body = DecodeMap [''title'' \<mapsto> VString ''x'']\<rparr>
      (Some ''permission denied'')
    = (Inr (http_Error ''Failed to save data'' 500),
       \<lparr>data = GoMap [''posts'' \<mapsto> GoSlice [VMap [''id'' \<mapsto> VFloat64 1],
                                VMap [''title'' \<mapsto> VString ''x'', ''id'' \<mapsto> VInt 2]]],
        filename = ''db.json''\<rparr>)
   \<and> handleGet (snd (handleCollection
        \<lparr>data = GoMap [''posts'' \<mapsto> GoSlice [VMap [''id'' \<mapsto> VFloat64 1]]], filename = ''db.json''\<rparr>
        \<lparr>Method = ''POST'', Path = ''/posts'', Body = DecodeMap [''title'' \<mapsto> VString ''x'']\<rparr>
        (Some ''permission denied''))) ''posts'' [''posts'']
    = Inr \<lparr>status = 200, payload = Items (GoSlice [VMap [''id'' \<mapsto> VFloat64 1],
                                VMap [''title'' \<mapsto> VString ''x'', ''id'' \<mapsto> VInt 2]])\<rparr>
   \<and> handleCollection
      \<lparr>data = GoMap [''posts'' \<mapsto> GoSlice [VMap [''id'' \<mapsto> VFloat64 1]]], filename = ''db.json''\<rparr>
      \<lparr>Method = ''PUT'', Path = ''/posts/1'', Body = DecodeMap [''title'' \<mapsto> VString ''x'']\<rparr>
      (Some ''permission denied'')
    = (Inr (http_Error ''Failed to save data'' 500),
       \<lparr>data = GoMap [''posts'' \<mapsto> GoSlice [VMap [''title'' \<mapsto> VString ''x'', ''id'' \<mapsto> VInt 1]]],
        filename = ''db.json''\<rparr>)
   \<and> handleCollection
      \<lparr>data = GoMap [''posts'' \<mapsto> GoSlice [VMap [''id'' \<mapsto> VFloat64 1]]], filename = ''db.json''\<rparr>
      \<lparr>Method = ''DELETE'', Path = ''/posts/1'', Body = DecodeErr ''EOF''\<rparr>
      (Some ''permission denied'')
    = (Inr (http_Error ''Failed to save data'' 500),
       \<lparr>data = GoMap [''posts'' \<mapsto> GoSlice []], filename = ''db.json''\<rparr>)"
proof -
  let ?d = "[''posts'' \<mapsto> GoSlice [VMap [''id'' \<mapsto> VFloat64 1]]]"
  let ?s = "\<lparr>data = GoMap ?d, filename = ''db.json''\<rparr>"
  let ?post = "\<lparr>Method = ''POST'', Path = ''/posts'', Body = DecodeMap [''title'' \<mapsto> VString ''x'']\<rparr>"
  let ?put = "\<lparr>Method = ''PUT'', Path = ''/posts/1'', Body = DecodeMap [''title'' \<mapsto> VString ''x'']\<rparr>"
  let ?del = "\<lparr>Method = ''DELETE'', Path = ''/posts/1'', Body = DecodeErr ''EOF''\<rparr>"
  have sd: "data ?s = GoMap ?d" by simp
  have find: "findItemIndex ?s ''posts'' 1 = Inr (Some 0)"
    by (simp add: findItemIndex_def data_index_def find_loop_step item_id_def map_index_def
          float64_to_int_def)
  have atoi: "Atoi ''1'' = Some 1" by (simp add: Atoi_def is_digit_def digit_val_def)
  have hpost: "Method ?post = ''POST'' \<and> hd (path_parts (Path ?post)) = ''posts''
                 \<and> Body ?post = DecodeMap [''title'' \<mapsto> VString ''x''] \<and> data ?s = GoMap ?d"
    by (simp add: path_parts_def Trim_def)
  have hput: "Method ?put = ''PUT'' \<and> path_parts (Path ?put) = ''posts'' # ''1'' # []
                \<and> Atoi ''1'' = Some 1 \<and> Body ?put = DecodeMap [''title'' \<mapsto> VString ''x'']
                \<and> findItemIndex ?s ''posts'' 1 = Inr (Some 0)"
    using find atoi by (simp add: path_parts_def Trim_def)
  have hdel: "Method ?del = ''DELETE'' \<and> path_parts (Path ?del) = ''posts'' # ''1'' # []
                \<and> Atoi ''1'' = Some 1 \<and> findItemIndex ?s ''posts'' 1 = Inr (Some 0)"
    using find atoi by (simp add: path_parts_def Trim_def)
  have spost: "snd (handleCollection ?s ?post None) =
       \<lparr>data = GoMap [''posts'' \<mapsto> GoSlice [VMap [''id'' \<mapsto> VFloat64 1],
                                VMap [''title'' \<mapsto> VString ''x'', ''id'' \<mapsto> VInt 2]]],
        filename = ''db.json''\<rparr>"
    by (simp add: route_POST path_parts_def Trim_def handlePost_map[OF sd] data_index_def)
  have sput: "snd (handleCollection ?s ?put None) =
       \<lparr>data = GoMap [''posts'' \<mapsto> GoSlice [VMap [''title'' \<mapsto> VString ''x'', ''id'' \<mapsto> VInt 1]]],
        filename = ''db.json''\<rparr>"
    using hput by (simp add: route_PUT handlePut_found[OF _ _ _ sd] data_index_def)
  have sdel: "snd (handleCollection ?s ?del None) =
       \<lparr>data = GoMap [''posts'' \<mapsto> GoSlice []], filename = ''db.json''\<rparr>"
    using hdel by (simp add: route_DELETE handleDelete_found[OF _ _ _ sd] data_index_def)
  note w = failed_save_is_not_rolled_back[where s = ?s and err = "''permission denied''"]
  from w[where r = ?post and c = "''posts''" and m = "[''title'' \<mapsto> VString ''x'']"
           and d = ?d] hpost spost
  have 1: "handleCollection ?s ?post (Some ''permission denied'')
    = (Inr (http_Error ''Failed to save data'' 500),
       \<lparr>data = GoMap [''posts'' \<mapsto> GoSlice [VMap [''id'' \<mapsto> VFloat64 1],
                                VMap [''title'' \<mapsto> VString ''x'', ''id'' \<mapsto> VInt 2]]],
        filename = ''db.json''\<rparr>)"
    by (simp add: prod_eq_iff)
  from w[where r = ?put and c = "''posts''" and m = "[''title'' \<mapsto> VString ''x'']"
           and tok = "''1''" and rest = "[]" and ident = 1 and idx = 0] hput sput
  have 2: "handleCollection ?s ?put (Some ''permission denied'')
    = (Inr (http_Error ''Failed to save data'' 500),
       \<lparr>data = GoMap [''posts'' \<mapsto> GoSlice [VMap [''title'' \<mapsto> VString ''x'', ''id'' \<mapsto> VInt 1]]],
        filename = ''db.json''\<rparr>)"
    by (simp add: prod_eq_iff)
  from w[where r = ?del and c = "''posts''" and tok = "''1''" and rest = "[]" and ident = 1
           and idx = 0] hdel sdel
  have 3: "handleCollection ?s ?del (Some ''permission denied'')
    = (Inr (http_Error ''Failed to save data'' 500),
       \<lparr>data = GoMap [''posts'' \<mapsto> GoSlice []], filename = ''db.json''\<rparr>)"
    by (simp add: prod_eq_iff)
  show ?thesis using 1 2 3 by (simp add: handleGet_list)
qed

section \<open>Reading a collection\<close>



section \<open>Duplicate identifiers\<close>

text \<open>
  Claim C8 fails on the code. In a collection with two records of id 1 the lookup
  first resolves to index 0, and PUT /posts/1 replaces that first record, writing its
  id as a Go \<^verbatim>\<open>int\<close>. From then on the collection still holds two records with id 1,
  but \<^verbatim>\<open>findItemIndex\<close> and the scan of GET panic on the first of them: GET, PUT and
  DELETE of /posts/1 resolve to no record at all.
\<close>

theorem duplicate_lookup_after_put_panics:
  "findItemIndex
     \<lparr>data = GoMap [''posts'' \<mapsto>
         GoSlice [VMap [''id'' \<mapsto> VFloat64 1, ''title'' \<mapsto> VString ''a''],
                  VMap [''id'' \<mapsto> VFloat64 1, ''title'' \<mapsto> VString ''b'']]],
      filename = ''db.json''\<rparr> ''posts'' 1 = Inr (Some 0)
   \<and> handleCollection
     \<lparr>data = GoMap [''posts'' \<mapsto>
         GoSlice [VMap [''id'' \<mapsto> VFloat64 1, ''title'' \<mapsto> VString ''a''],
                  VMap [''id'' \<mapsto> VFloat64 1, ''title'' \<mapsto> VString ''b'']]],
      filename = ''db.json''\<rparr>
     \<lparr>Method = ''PUT'', Path = ''/posts/1'', Body = DecodeMap [''title'' \<mapsto> VString ''c'']\<rparr> None
   = (Inr \<lparr>status = 200, payload = Item [''title'' \<mapsto> VString ''c'', ''id'' \<mapsto> VInt 1]\<rparr>,
      \<lparr>data = GoMap [''posts'' \<mapsto>
          GoSlice [VMap [''title'' \<mapsto> VString ''c'', ''id'' \<mapsto> VInt 1],
                   VMap [''id'' \<mapsto> VFloat64 1, ''title'' \<mapsto> VString ''b'']]],
       filename = ''db.json''\<rparr>)
   \<and> findItemIndex
     \<lparr>data = GoMap [''posts'' \<mapsto>
         GoSlice [VMap [''title'' \<mapsto> VString ''c'', ''id'' \<mapsto> VInt 1],
                  VMap [''id'' \<mapsto> VFloat64 1, ''title'' \<mapsto> VString ''b'']]],
      filename = ''db.json''\<rparr> ''posts'' 1 = Inl InterfaceConversion
   \<and> handleCollection
     \<lparr>data = GoMap [''posts'' \<mapsto>
         GoSlice [VMap [''title'' \<mapsto> VString ''c'', ''id'' \<mapsto> VInt 1],
                  VMap [''id'' \<mapsto> VFloat64 1, ''title'' \<mapsto> VString ''b'']]],
      filename = ''db.json''\<rparr>
     \<lparr>Method = ''GET'', Path = ''/posts/1'', Body = DecodeErr ''EOF''\<rparr> None
   = (Inl InterfaceConversion,
      \<lparr>data = GoMap [''posts'' \<mapsto>
          GoSlice [VMap [''title'' \<mapsto> VString ''c'', ''id'' \<mapsto> VInt 1],
                   VMap [''id'' \<mapsto> VFloat64 1, ''title'' \<mapsto> VString ''b'']]],
       filename = ''db.json''\<rparr>)
   \<and> handleCollection
     \<lparr>data = GoMap [''posts'' \<mapsto>
         GoSlice [VMap [''title'' \<mapsto> VString ''c'', ''id'' \<mapsto> VInt 1],
                  VMap [''id'' \<mapsto> VFloat64 1, ''title'' \<mapsto> VString ''b'']]],
      filename = ''db.json''\<rparr>
     \<lparr>Method = ''DELETE'', Path = ''/posts/1'', Body = DecodeErr ''EOF''\<rparr> None
   = (Inl InterfaceConversion,
      \<lparr>data = GoMap [''posts'' \<mapsto>
          GoSlice [VMap [''title'' \<mapsto> VString ''c'', ''id'' \<mapsto> VInt 1],
                   VMap [''id'' \<mapsto> VFloat64 1, ''title'' \<mapsto> VString ''b'']]],
       filename = ''db.json''\<rparr>)"
  by (simp add: handleCollection_def path_parts_def Trim_def handlePut_def handleDelete_def
        handleGet_def get_loop_step
        set_elem_def saveData_def data_index_def findItemIndex_def find_loop_step item_id_def
        map_index_def float64_to_int_def Atoi_def is_digit_def digit_val_def Let_def)

section \<open>Loading the store\<close>

text \<open>
  What \<^verbatim>\<open>NewServer\<close> does refuse: a file that cannot be opened, a content that is no
  JSON text, a document that is neither an object nor the literal null, and an object
  with a member that is neither an array nor the literal null. In each case \<^verbatim>\<open>Run\<close>
  returns an error and serves nothing, and no store is made up in place of the file's.
\<close>

lemma decode_slice_refuses:
  "v \<noteq> JNull \<Longrightarrow> (\<forall>xs. v \<noteq> JArray xs) \<Longrightarrow> \<exists>err. decode_slice v = Inl err"
  by (cases v) simp_all

lemma decode_members_refuses:
  "(k, v) \<in> set kvs \<Longrightarrow> decode_slice v = Inl e \<Longrightarrow> \<exists>err. decode_members kvs m = Inl err"
  by (induction kvs arbitrary: m) (auto split: sum.splits)

lemma Run_of_NewServer_error:
  "NewServer open_read name = Inl err \<Longrightarrow>
     Run open_read name = Inl (''error initializing server: '' @ err)"
  by (simp add: Run_def)

lemma NewServer_refuses:
  "open_read name = Inl err \<Longrightarrow> NewServer open_read name = Inl err"
  "open_read name = Inr (Malformed err) \<Longrightarrow> NewServer open_read name = Inl err"
  "open_read name = Inr (Document v) \<Longrightarrow> v \<noteq> JNull \<Longrightarrow> (\<forall>kvs. v \<noteq> JObject kvs) \<Longrightarrow>
     \<exists>e. NewServer open_read name = Inl e"
  "open_read name = Inr (Document (JObject kvs)) \<Longrightarrow> (k, w) \<in> set kvs \<Longrightarrow>
     w \<noteq> JNull \<Longrightarrow> (\<forall>xs. w \<noteq> JArray xs) \<Longrightarrow>
     \<exists>e. NewServer open_read name = Inl e"
proof -
  show "open_read name = Inl err \<Longrightarrow> NewServer open_read name = Inl err"
    by (simp add: NewServer_def)
  show "open_read name = Inr (Malformed err) \<Longrightarrow> NewServer open_read name = Inl err"
    by (simp add: NewServer_def)
  show "open_read name = Inr (Document v) \<Longrightarrow> v \<noteq> JNull \<Longrightarrow> (\<forall>kvs. v \<noteq> JObject kvs) \<Longrightarrow>
     \<exists>e. NewServer open_read name = Inl e"
    by (cases v) (simp_all add: NewServer_def)
  show "\<exists>e. NewServer open_read name = Inl e"
    if o: "open_read name = Inr (Document (JObject kvs))" and m: "(k, w) \<in> set kvs"
      and w: "w \<noteq> JNull" "\<forall>xs. w \<noteq> JArray xs"
  proof -
    from decode_slice_refuses[OF w] obtain e where "decode_slice w = Inl e" by blast
    from decode_members_refuses[OF m this] obtain err
      where "decode_members kvs Map.empty = Inl err" by blast
    with o show ?thesis by (simp add: NewServer_def)
  qed
qed

lemma NewServer_success:
  "NewServer open_read name = Inr server \<Longrightarrow>
     \<exists>c. open_read name = Inr c \<and> Unmarshal c = Inr (data server) \<and> filename server = name"
  by (auto simp: NewServer_def split: sum.splits)

text \<open>
  Claim C9 fails on the code. A backing file that holds the literal \<^verbatim>\<open>null\<close> is not
  a JSON object mapping names to arrays, yet \<^verbatim>\<open>NewServer\<close> returns no error for it:
  the decoder sets the map to nil, \<^verbatim>\<open>Run\<close> goes on to serve, and the first POST
  panics on the assignment into the nil map. An object with a null member, which is
  not an array either, loads as well, with a nil slice.
\<close>

theorem null_file_loads:
  "NewServer (\<lambda>n. if n = ''db.json'' then Inr (Document JNull) else Inl ''no such file'')
      ''db.json'' = Inr \<lparr>data = NilMap, filename = ''db.json''\<rparr>
   \<and> Run (\<lambda>n. if n = ''db.json'' then Inr (Document JNull) else Inl ''no such file'')
      ''db.json'' = Inr \<lparr>data = NilMap, filename = ''db.json''\<rparr>
   \<and> handleCollection \<lparr>data = NilMap, filename = ''db.json''\<rparr>
        \<lparr>Method = ''POST'', Path = ''/posts'', Body = DecodeMap [''title'' \<mapsto> VString ''x'']\<rparr> None
      = (Inl NilMapAssignment, \<lparr>data = NilMap, filename = ''db.json''\<rparr>)
   \<and> NewServer (\<lambda>n. if n = ''db.json'' then Inr (Document (JObject [(''posts'', JNull)]))
                     else Inl ''no such file'')
      ''db.json'' = Inr \<lparr>data = GoMap [''posts'' \<mapsto> NilSlice], filename = ''db.json''\<rparr>"
  by (simp add: NewServer_def Run_def handleCollection_def path_parts_def Trim_def
        handlePost_def Let_def data_index_def)

section \<open>Collection keys\<close>

text \<open>
  Claim C10. Whatever the request and the outcome of the save, a collection that is a
  key of the store before the request is a key after it. When DELETE removes the only
  record of a collection, the key stays, mapped to the empty sequence, and a following
  GET of the collection answers 200 with the empty array.
\<close>

theorem collection_keys_are_never_removed:
  "(map_lookup (data s) c \<noteq> None \<longrightarrow>
      map_lookup (data (snd (handleCollection s r io))) c \<noteq> None)
   \<and> (Method r = ''DELETE'' \<and> path_parts (Path r) = c # tok # rest \<and> Atoi tok = Some ident
        \<and> map_lookup (data s) c = Some (GoSlice [x]) \<and> item_id x = Inr ident \<longrightarrow>
        map_lookup (data (snd (handleCollection s r io))) c = Some (GoSlice [])
        \<and> handleGet (snd (handleCollection s r io)) c [c]
            = Inr \<lparr>status = 200, payload = Items (GoSlice [])\<rparr>)"
proof (intro conjI impI)
  assume "map_lookup (data s) c \<noteq> None"
  then show "map_lookup (data (snd (handleCollection s r io))) c \<noteq> None"
    by (simp add: handleCollection_def Let_def handlePost_keeps_keys handlePut_keeps_keys
          handleDelete_keeps_keys del: not_None_eq)
next
  assume a: "Method r = ''DELETE'' \<and> path_parts (Path r) = c # tok # rest \<and> Atoi tok = Some ident
        \<and> map_lookup (data s) c = Some (GoSlice [x]) \<and> item_id x = Inr ident"
  then have f: "findItemIndex s c ident = Inr (Some 0)"
    by (simp add: findItemIndex_def data_index_def find_loop_step)
  from findItemIndex_found(4)[OF f] obtain d where d: "data s = GoMap d" by blast
  from a f d have m: "map_lookup (data (snd (handleCollection s r io))) c = Some (GoSlice [])"
    by (simp add: route_DELETE handleDelete_found data_index_def)
  then show "map_lookup (data (snd (handleCollection s r io))) c = Some (GoSlice [])" .
  from m show "handleGet (snd (handleCollection s r io)) c [c]
            = Inr \<lparr>status = 200, payload = Items (GoSlice [])\<rparr>"
    by (rule handleGet_list)
qed

theorem collection_keys_are_never_removed_witness:
  "map_lookup (data (snd (handleCollection
      \<lparr>data = GoMap [''users'' \<mapsto> GoSlice [], ''posts'' \<mapsto> GoSlice [VMap [''id'' \<mapsto> VFloat64 1]]],
       filename = ''db.json''\<rparr>
      \<lparr>Method = ''DELETE'', Path = ''/posts/1'', Body = DecodeErr ''EOF''\<rparr> None))) ''users'' \<noteq> None
   \<and> map_lookup (data (snd (handleCollection
      \<lparr>data = GoMap [''users'' \<mapsto> GoSlice [], ''posts'' \<mapsto> GoSlice [VMap [''id'' \<mapsto> VFloat64 1]]],
       filename = ''db.json''\<rparr>
      \<lparr>Method = ''DELETE'', Path = ''/posts/1'', Body = DecodeErr ''EOF''\<rparr> None))) ''posts''
     = Some (GoSlice [])
   \<and> handleGet (snd (handleCollection
      \<lparr>data = GoMap [''users'' \<mapsto> GoSlice [], ''posts'' \<mapsto> GoSlice [VMap [''id'' \<mapsto> VFloat64 1]]],
       filename = ''db.json''\<rparr>
      \<lparr>Method = ''DELETE'', Path = ''/posts/1'', Body = DecodeErr ''EOF''\<rparr> None)) ''posts'' [''posts'']
     = Inr \<lparr>status = 200, payload = Items (GoSlice [])\<rparr>"
proof -
  let ?s = "\<lparr>data = GoMap [''users'' \<mapsto> GoSlice [],
                          ''posts'' \<mapsto> GoSlice [VMap [''id'' \<mapsto> VFloat64 1]]],
            filename = ''db.json''\<rparr>"
  let ?del = "\<lparr>Method = ''DELETE'', Path = ''/posts/1'', Body = DecodeErr ''EOF''\<rparr>"
  have u: "map_lookup (data ?s) ''users'' \<noteq> None" by simp
  have h: "Method ?del = ''DELETE'' \<and> path_parts (Path ?del) = ''posts'' # ''1'' # []
      \<and> Atoi ''1'' = Some 1
      \<and> map_lookup (data ?s) ''posts'' = Some (GoSlice [VMap [''id'' \<mapsto> VFloat64 1]])
      \<and> item_id (VMap [''id'' \<mapsto> VFloat64 1]) = Inr 1"
    by (simp add: path_parts_def Trim_def Atoi_def is_digit_def digit_val_def item_id_def
          map_index_def float64_to_int_def)
  from collection_keys_are_never_removed[where s = ?s and r = ?del and io = None
         and c = "''users''"] u
  have 1: "map_lookup (data (snd (handleCollection ?s ?del None))) ''users'' \<noteq> None" by blast
  from collection_keys_are_never_removed[where s = ?s and r = ?del and io = None
         and c = "''posts''" and tok = "''1''" and rest = "[]" and ident = 1
         and x = "VMap [''id'' \<mapsto> VFloat64 1]"] h
  have 2: "map_lookup (data (snd (handleCollection ?s ?del None))) ''posts'' = Some (GoSlice [])
     \<and> handleGet (snd (handleCollection ?s ?del None)) ''posts'' [''posts'']
         = Inr \<lparr>status = 200, payload = Items (GoSlice [])\<rparr>" by blast
  from 1 2 show ?thesis by simp
qed

end
